theory Spec2Isabelle
  imports Complex_Main "HOL-Library.Char_ord" "HOL-Library.List_Lexorder"
begin

section \<open>Conventions of the embedding\<close>

text \<open>
  The program is TypeScript. A JavaScript \<open>number\<close> is modelled as an exact \<^typ>\<open>real\<close>
  (no rounding error, no NaN, no Infinity unless written out); a \<open>Date\<close> is the number
  of milliseconds that \<open>getTime()\<close> returns; a value that may be \<open>null\<close> or
  \<open>undefined\<close> is an \<^typ>\<open>'a option\<close>. \<open>Math.round\<close> rounds to the nearest integer,
  a half going up.
\<close>

definition Math_round :: "real \<Rightarrow> int" where
  "Math_round x = \<lfloor>x + 1 / 2\<rfloor>"

text \<open>\<open>x || d\<close> on a number that may be missing: zero is falsy as well.\<close>

definition or_else :: "real option \<Rightarrow> real \<Rightarrow> real" where
  "or_else x d = (case x of None \<Rightarrow> d | Some v \<Rightarrow> if v = 0 then d else v)"

section \<open>Metabolic rate (client/src/pages/Home.tsx)\<close>

definition calculateBMR :: "real \<Rightarrow> real \<Rightarrow> real \<Rightarrow> string \<Rightarrow> int" where
  "calculateBMR weight height age gender =
     (let bmr = (10 * weight) + (6.25 * height) - (5 * age);
          bmr = (if gender = ''male'' then bmr + 5 else bmr - 161)
      in Math_round bmr)"

definition getActivityMultiplier :: "string \<Rightarrow> real" where
  "getActivityMultiplier level =
     (if level = ''sedentary'' then 1.2
      else if level = ''light'' then 1.375
      else if level = ''moderate'' then 1.55
      else if level = ''active'' then 1.725
      else if level = ''very_active'' then 1.9
      else 1.2)"

text \<open>
  The TDEE has no function of its own in the source: every call site writes
  \<open>Math.round(bmr * getActivityMultiplier(level))\<close> (Home.tsx lines 969, 1320, 1925).
\<close>

definition tdee_of :: "real \<Rightarrow> string \<Rightarrow> int" where
  "tdee_of bmr level = Math_round (bmr * getActivityMultiplier level)"

section \<open>Fasting stage classifier (client/src/pages/Home.tsx)\<close>

text \<open>
  \<open>lastMealTime\<close> is a number of milliseconds or \<open>null\<close>; the source tests it with
  \<open>lastMealTime ? ... : ...\<close> and \<open>!lastMealTime\<close>, which also take the number 0 for
  missing.
\<close>

definition truthy :: "real option \<Rightarrow> bool" where
  "truthy x = (case x of None \<Rightarrow> False | Some v \<Rightarrow> v \<noteq> 0)"

definition secondsSinceLastMeal :: "real option \<Rightarrow> real \<Rightarrow> real" where
  "secondsSinceLastMeal lastMealTime now =
     (if truthy lastMealTime then (now - the lastMealTime) / 1000 else 0)"

definition hoursSinceLastMeal :: "real option \<Rightarrow> real \<Rightarrow> real" where
  "hoursSinceLastMeal lastMealTime now = secondsSinceLastMeal lastMealTime now / 3600"

record fasting_stage =
  stage_name :: string
  stage_color :: string
  stage_progress :: real

definition getFastingStage :: "real option \<Rightarrow> real \<Rightarrow> fasting_stage" where
  "getFastingStage lastMealTime now =
     (let h = hoursSinceLastMeal lastMealTime now in
      if \<not> truthy lastMealTime then
        \<lparr>stage_name = ''Awaiting Entry'', stage_color = ''bg-muted'', stage_progress = 0\<rparr>
      else if h < 4 then
        \<lparr>stage_name = ''Fed'', stage_color = ''bg-accent'', stage_progress = (h / 4) * 100\<rparr>
      else if h < 8 then
        \<lparr>stage_name = ''Post-Absorptive'', stage_color = ''bg-primary/80'',
         stage_progress = ((h - 4) / 4) * 100\<rparr>
      else if h < 12 then
        \<lparr>stage_name = ''Fat Burning'', stage_color = ''bg-primary'',
         stage_progress = ((h - 8) / 4) * 100\<rparr>
      else if h < 16 then
        \<lparr>stage_name = ''Deep Ketosis'', stage_color = ''bg-primary/60'',
         stage_progress = ((h - 12) / 4) * 100\<rparr>
      else
        \<lparr>stage_name = ''Autophagy'', stage_color = ''bg-primary/40'', stage_progress = 100\<rparr>)"

section \<open>The user row (shared/schema.ts) and the server's storage\<close>

text \<open>
  The columns of \<open>users\<close> that the modelled routes read or write. Timestamps are
  milliseconds; \<open>bufferForDate\<close> is a \<open>YYYY-MM-DD\<close> string.
\<close>

record user =
  gender :: "string option"
  dailyGoalCalories :: "real option"
  dailyDeficit :: "real option"
  goalWeight :: "real option"
  goalDays :: "real option"
  goalStartDate :: "real option"
  cumulativeNetCalories :: "real option"
  lastBalanceUpdateDate :: "real option"
  fastingTrackingStartDate :: "real option"
  bufferAmount :: "int option"
  bufferForDate :: "string option"
  updatedAt :: "real option"

definition setBuffer :: "real \<Rightarrow> user \<Rightarrow> int \<Rightarrow> string \<Rightarrow> user" where
  "setBuffer now u amount forDate =
     u\<lparr>bufferAmount := Some amount, bufferForDate := Some forDate, updatedAt := Some now\<rparr>"

definition clearBuffer :: "real \<Rightarrow> user \<Rightarrow> user" where
  "clearBuffer now u = u\<lparr>bufferAmount := None, bufferForDate := None, updatedAt := Some now\<rparr>"

section \<open>Buffer manager (POST /api/user/calculate-buffer)\<close>

datatype buffer_reason = exceeded_tdee | met_or_exceeded_goal

text \<open>
  The JSON answer of the route: \<open>{bufferSet: true, bufferAmount, forDate, user}\<close> or
  \<open>{bufferSet: false, reason, bufferCleared?, user}\<close> (\<open>bufferCleared\<close> is \<open>true\<close> or
  left out), or a 404 when the user row is missing.
\<close>

datatype buffer_response =
    BufferSet int string user
  | BufferNotSet buffer_reason bool user
  | BufferUserNotFound

text \<open>
  \<open>nextDateStr\<close> is the date after the request's \<open>date\<close>, as the \<open>Date\<close> arithmetic of
  the route computes it; it is an input here. Strings compare as JavaScript compares
  them, lexicographically by character code. The route's first check (the body has a
  \<open>date\<close>, and \<open>consumed\<close> and \<open>tdee\<close> are numbers) is the typing of the arguments.
\<close>

definition calculate_buffer ::
  "real \<Rightarrow> user option \<Rightarrow> real \<Rightarrow> real \<Rightarrow> string \<Rightarrow> buffer_response" where
  "calculate_buffer now uo consumed tdee nextDateStr =
     (case uo of
        None \<Rightarrow> BufferUserNotFound
      | Some u \<Rightarrow>
          (let goal = or_else (dailyGoalCalories u) tdee in
           if consumed < goal \<and> consumed < tdee then
             (let amount = Math_round (goal - consumed)
              in BufferSet amount nextDateStr (setBuffer now u amount nextDateStr))
           else
             (let reason = (if consumed \<ge> tdee then exceeded_tdee else met_or_exceeded_goal) in
              case bufferForDate u of
                Some d \<Rightarrow>
                  if d \<noteq> [] \<and> d \<le> nextDateStr
                  then BufferNotSet reason True (clearBuffer now u)
                  else BufferNotSet reason False u
              | None \<Rightarrow> BufferNotSet reason False u)))"

text \<open>
  What the route's guard \<open>user.bufferForDate && user.bufferForDate <= nextDateStr\<close>
  tests: a buffer is stored (the column is neither \<open>null\<close> nor the empty string) and its
  date is not after \<open>nextDateStr\<close>.
\<close>

definition has_buffer_due :: "user \<Rightarrow> string \<Rightarrow> bool" where
  "has_buffer_due u nextDateStr =
     (case bufferForDate u of None \<Rightarrow> False | Some d \<Rightarrow> d \<noteq> [] \<and> d \<le> nextDateStr)"

text \<open>A user row for the worked examples.\<close>

definition user0 :: user where
  "user0 = \<lparr>gender = Some ''male'', dailyGoalCalories = Some 1800, dailyDeficit = None,
     goalWeight = None, goalDays = None, goalStartDate = None,
     cumulativeNetCalories = Some 0, lastBalanceUpdateDate = None,
     fastingTrackingStartDate = None, bufferAmount = Some 250,
     bufferForDate = Some ''2024-03-10'', updatedAt = None\<rparr>"

section \<open>Goal plan (PATCH /api/user/goals, and the client's onboarding)\<close>

datatype goals_error = MissingRequiredFields | TargetWeightNotLess | TargetDaysNotPositive

text \<open>
  The request body's four numbers; \<open>!x\<close> rejects a missing field and the number 0.
  The answer is the updated user row (\<open>storage.updateUserGoals\<close>).
\<close>

definition updateUserGoals :: "real \<Rightarrow> user \<Rightarrow> real \<Rightarrow> real \<Rightarrow> real \<Rightarrow> real \<Rightarrow> user" where
  "updateUserGoals now u gw gd dgc dd =
     u\<lparr>goalWeight := Some gw, goalDays := Some gd, goalStartDate := Some now,
       dailyGoalCalories := Some dgc, dailyDeficit := Some dd, updatedAt := Some now\<rparr>"

definition patch_goals ::
  "real \<Rightarrow> user \<Rightarrow> real option \<Rightarrow> real option \<Rightarrow> real option \<Rightarrow> real option
     \<Rightarrow> goals_error + user" where
  "patch_goals now u targetWeight targetDays currentWeight bmr =
     (if \<not> truthy targetWeight \<or> \<not> truthy targetDays \<or> \<not> truthy currentWeight \<or> \<not> truthy bmr
      then Inl MissingRequiredFields
      else
        (let weightDiff = the currentWeight - the targetWeight in
         if weightDiff \<le> 0 then Inl TargetWeightNotLess
         else if the targetDays \<le> 0 then Inl TargetDaysNotPositive
         else
           (let totalCaloriesToBurn = weightDiff * 7700;
                dailyDeficit = real_of_int (Math_round (totalCaloriesToBurn / the targetDays));
                safeDeficit = min dailyDeficit 1000;
                dailyGoalCalories = max (the bmr - safeDeficit) 1200
            in Inr (updateUserGoals now u (the targetWeight) (the targetDays)
                      dailyGoalCalories safeDeficit))))"

text \<open>The client's floor (Home.tsx, \<open>getMinimumDailyCalories\<close>).\<close>

definition getMinimumDailyCalories :: "string \<Rightarrow> real" where
  "getMinimumDailyCalories g = (if g = ''female'' then 1200 else 1500)"

text \<open>
  The goal as the client's onboarding derives it (Home.tsx, \<open>handleCompleteOnboarding\<close>):
  the pair (dailyGoalCalories, dailyDeficit), or nothing when the goal is not valid. The
  parsed inputs are numbers or NaN; NaN is \<open>None\<close> here.
\<close>

definition onboarding_goal ::
  "real \<Rightarrow> real \<Rightarrow> string \<Rightarrow> real option \<Rightarrow> real option \<Rightarrow> (real \<times> real) option" where
  "onboarding_goal weight bmr editGender targetWeight targetDays =
     (case (targetWeight, targetDays) of
        (Some tw, Some td) \<Rightarrow>
          if tw < weight \<and> td > 0 then
            (let weightDiff = weight - tw;
                 totalCaloriesToBurn = weightDiff * 7700;
                 dailyDeficit = min (real_of_int (Math_round (totalCaloriesToBurn / td))) 1000;
                 minDaily = (if editGender = ''female'' then 1200 else 1500);
                 dailyGoalCalories = max (bmr - dailyDeficit) minDaily
             in Some (dailyGoalCalories, dailyDeficit))
          else None
      | _ \<Rightarrow> None)"

section \<open>Energy balance: the server (server/storage.ts)\<close>

datatype storage_error = UserNotFound

text \<open>
  \<open>updateEnergyReserve(userId, deltaCalories, tdee)\<close>. The row that \<open>getUser\<close> finds is
  an argument (\<open>None\<close> when there is none), and so is the clock. The column
  \<open>cumulativeNetCalories\<close> is a \<open>real\<close>, so the branch of the source for a string is
  not taken; \<open>x || 0\<close> remains.
\<close>

definition updateEnergyReserve ::
  "real \<Rightarrow> user option \<Rightarrow> real \<Rightarrow> real \<Rightarrow> storage_error + user" where
  "updateEnergyReserve now uo deltaCalories tdee =
     (case uo of
        None \<Rightarrow> Inl UserNotFound
      | Some u \<Rightarrow>
          (let currentBalance = or_else (cumulativeNetCalories u) 0;
               lastUpdate = (case lastBalanceUpdateDate u of Some d \<Rightarrow> d | None \<Rightarrow> now);
               secondsSinceLastUpdate = max 0 ((now - lastUpdate) / 1000);
               burnRatePerSecond = tdee / 86400;
               burnSinceLastUpdate = secondsSinceLastUpdate * burnRatePerSecond;
               newBalance = currentBalance + burnSinceLastUpdate - deltaCalories;
               maxBalance = or_else (dailyGoalCalories u) tdee;
               newBalance = min newBalance maxBalance
           in Inr (u\<lparr>cumulativeNetCalories := Some newBalance,
                     lastBalanceUpdateDate := Some now, updatedAt := Some now\<rparr>)))"

section \<open>Energy balance: the client (client/src/pages/Home.tsx)\<close>

text \<open>
  The React state the balance is computed from: the anchor (value and timestamp in
  milliseconds) and the two rates of \<open>stats\<close>.
\<close>

record client_state =
  balanceAnchorValue :: real
  balanceAnchorTimestamp :: real
  stats_dailyGoalCalories :: "real option"
  stats_tdee :: real

definition goalBurnRatePerSecond :: "client_state \<Rightarrow> real" where
  "goalBurnRatePerSecond st = or_else (stats_dailyGoalCalories st) (stats_tdee st) / 86400"

definition secondsSinceAnchor :: "client_state \<Rightarrow> real \<Rightarrow> real" where
  "secondsSinceAnchor st now = max 0 ((now - balanceAnchorTimestamp st) / 1000)"

definition burnSinceAnchor :: "client_state \<Rightarrow> real \<Rightarrow> real" where
  "burnSinceAnchor st now = secondsSinceAnchor st now * goalBurnRatePerSecond st"

definition cumulativeBalance :: "client_state \<Rightarrow> real \<Rightarrow> real" where
  "cumulativeBalance st now = balanceAnchorValue st + burnSinceAnchor st now"

definition maxEnergyBalance :: "client_state \<Rightarrow> real" where
  "maxEnergyBalance st = or_else (stats_dailyGoalCalories st) (stats_tdee st)"

text \<open>The number the page shows.\<close>

definition shownBalance :: "client_state \<Rightarrow> real \<Rightarrow> real" where
  "shownBalance st now = min (cumulativeBalance st now) (maxEnergyBalance st)"


section \<open>Energy balance: the engine as the specification words it\<close>

text \<open>
  Section 4.2 of the specification: the state \<open>Anchored(value, timestamp, capBasis)\<close>
  with time in seconds, \<open>query\<close> and \<open>applyFoodDelta\<close>. These three definitions follow
  the specification, not the source; the theorems compare the source with them.
\<close>

record anchored =
  anchor_value :: real
  anchor_timestamp :: real
  capBasis :: real

definition spec_elapsedBurn :: "anchored \<Rightarrow> real \<Rightarrow> real" where
  "spec_elapsedBurn s now =
     max 0 (now - anchor_timestamp s) * (if capBasis s \<le> 0 then 0 else capBasis s / 86400)"

definition spec_query :: "anchored \<Rightarrow> real \<Rightarrow> real" where
  "spec_query s now = min (anchor_value s + spec_elapsedBurn s now) (capBasis s)"


text \<open>The engine state that a client state, or a user row, stands for.\<close>

definition abs_client :: "client_state \<Rightarrow> anchored" where
  "abs_client st =
     \<lparr>anchor_value = balanceAnchorValue st,
      anchor_timestamp = balanceAnchorTimestamp st / 1000,
      capBasis = maxEnergyBalance st\<rparr>"






text \<open>States for the worked examples: a day's allowance of 2000, the anchor at time 0.\<close>

definition client0 :: client_state where
  "client0 = \<lparr>balanceAnchorValue = 2000, balanceAnchorTimestamp = 0,
     stats_dailyGoalCalories = None, stats_tdee = 2000\<rparr>"

definition user1 :: user where
  "user1 = \<lparr>gender = None, dailyGoalCalories = None, dailyDeficit = None,
     goalWeight = None, goalDays = None, goalStartDate = None,
     cumulativeNetCalories = Some 2000, lastBalanceUpdateDate = Some 0,
     fastingTrackingStartDate = None, bufferAmount = None,
     bufferForDate = None, updatedAt = None\<rparr>"

section \<open>Fasting summary aggregator (server routes)\<close>

subsection \<open>Allocation of a window to the stages\<close>










subsection \<open>One day\<close>





subsection \<open>The route POST /api/fasting/recalculate\<close>

text \<open>
  The server's local calendar, as the \<open>Date\<close> methods the route calls:
  \<open>setHours(0,0,0,0)\<close>, \<open>setHours(23,59,59,999)\<close>, \<open>setDate(getDate() - i)\<close>, and the
  test \<open>a.toDateString() === b.toDateString()\<close>. It is a parameter: the theorems hold
  for every time zone.
\<close>

record calendar =
  startOfDay :: "real \<Rightarrow> real"
  endOfDay :: "real \<Rightarrow> real"
  daysBefore :: "real \<Rightarrow> nat \<Rightarrow> real"
  sameDate :: "real \<Rightarrow> real \<Rightarrow> bool"





text \<open>
  A calendar for the worked examples: UTC without leap seconds, a day is 86400000
  milliseconds.
\<close>

definition utc_calendar :: calendar where
  "utc_calendar =
     \<lparr>startOfDay = (\<lambda>t. 86400000 * real_of_int \<lfloor>t / 86400000\<rfloor>),
      endOfDay = (\<lambda>t. 86400000 * real_of_int \<lfloor>t / 86400000\<rfloor> + 86399999),
      daysBefore = (\<lambda>t i. t - 86400000 * real i),
      sameDate = (\<lambda>a b. \<lfloor>a / 86400000\<rfloor> = \<lfloor>b / 86400000\<rfloor>)\<rparr>"

section \<open>Adding a food item (POST /api/food)\<close>

record food_item =
  food_name :: string
  food_calories :: real
  food_timestamp :: real
  food_mealType :: "string option"

text \<open>The fields of the request body the model keeps; each may be missing.\<close>

record food_request =
  req_name :: "string option"
  req_calories :: "real option"
  req_timestamp :: "real option"
  req_mealType :: "string option"

text \<open>
  \<open>insertFoodItemSchema.safeParse\<close> (shared/schema.ts): the insert schema of the table
  \<open>food_items\<close>, where \<open>name\<close> and \<open>calories\<close> are \<open>notNull\<close>. The second argument is the
  timestamp of \<open>normalizedBody\<close>.
\<close>

definition safeParse :: "food_request \<Rightarrow> real \<Rightarrow> food_item option" where
  "safeParse req ts =
     (case (req_name req, req_calories req) of
        (Some n, Some c) \<Rightarrow>
          Some \<lparr>food_name = n, food_calories = c, food_timestamp = ts,
                food_mealType = req_mealType req\<rparr>
      | _ \<Rightarrow> None)"

text \<open>The part of the database the route touches: the user row and the food items.\<close>

record db =
  db_user :: "user option"
  db_foods :: "food_item list"

datatype food_response =
    FoodCreated food_item
  | InvalidFoodData
  | BeforeTrackingStart real

definition post_food :: "calendar \<Rightarrow> real \<Rightarrow> db \<Rightarrow> food_request \<Rightarrow> food_response \<times> db" where
  "post_food cal now d req =
     (let timestamp = (if truthy (req_timestamp req) then the (req_timestamp req) else now)
      in case safeParse req timestamp of
           None \<Rightarrow> (InvalidFoodData, d)
         | Some parsed \<Rightarrow>
             (let tracking = (case db_user d of
                                None \<Rightarrow> None
                              | Some u \<Rightarrow> fastingTrackingStartDate u);
                  startDate = map_option (startOfDay cal) tracking;
                  entryDate = startOfDay cal timestamp
              in case startDate of
                   Some sd \<Rightarrow>
                     if entryDate < sd then (BeforeTrackingStart sd, d)
                     else (FoodCreated parsed, d\<lparr>db_foods := db_foods d @ [parsed]\<rparr>)
                 | None \<Rightarrow>
                     (FoodCreated parsed,
                      d\<lparr>db_foods := db_foods d @ [parsed],
                        db_user := map_option
                          (\<lambda>u. u\<lparr>fastingTrackingStartDate := Some (food_timestamp parsed),
                                  updatedAt := Some now\<rparr>)
                          (db_user d)\<rparr>)))"

text \<open>The answers with status 400.\<close>

fun is_validation_error :: "food_response \<Rightarrow> bool" where
  "is_validation_error (FoodCreated f) = False"
| "is_validation_error InvalidFoodData = True"
| "is_validation_error (BeforeTrackingStart sd) = True"

text \<open>
  Fixtures for the worked examples: a user whose tracking starts at midnight (UTC) of
  2024-03-10, the database holding that user, and a request dated the day before.
\<close>

definition user2 :: user where
  "user2 = user1\<lparr>fastingTrackingStartDate := Some 1710028800000\<rparr>"

definition db0 :: db where
  "db0 = \<lparr>db_user = Some user2, db_foods = []\<rparr>"

definition request0 :: food_request where
  "request0 = \<lparr>req_name = Some ''Oatmeal with berries'', req_calories = Some 320,
     req_timestamp = Some 1710000000000, req_mealType = None\<rparr>"

section \<open>Theorems\<close>

lemma Math_round_is_round: "Math_round x = round x"
  by (simp add: Math_round_def round_def)

text \<open>
  C5 (amended). \<open>calculateBMR\<close> is the Mifflin-St Jeor value rounded to the nearest
  integer, the TDEE is \<open>round (bmr * multiplier)\<close> with the five multipliers of the
  claim and 1.2 for any other level; \<open>bmr(75, 175, 30, male)\<close> is 1699 (not 1680) and
  \<open>tdee(1680, light)\<close> is 2310.
\<close>

theorem C5_bmr_tdee:
  "calculateBMR w h a g
      = round (10 * w + 6.25 * h - 5 * a + (if g = ''male'' then 5 else - 161))
   \<and> tdee_of b l = round (b * getActivityMultiplier l)
   \<and> getActivityMultiplier ''sedentary'' = 1.2
   \<and> getActivityMultiplier ''light'' = 1.375
   \<and> getActivityMultiplier ''moderate'' = 1.55
   \<and> getActivityMultiplier ''active'' = 1.725
   \<and> getActivityMultiplier ''very_active'' = 1.9
   \<and> getActivityMultiplier l
        = (if l \<in> {''sedentary'', ''light'', ''moderate'', ''active'', ''very_active''}
           then getActivityMultiplier l else 1.2)
   \<and> calculateBMR 75 175 30 ''male'' = 1699
   \<and> tdee_of 1680 ''light'' = 2310"
proof -
  have bmr: "calculateBMR w h a g
      = round (10 * w + 6.25 * h - 5 * a + (if g = ''male'' then 5 else - 161))"
    by (simp add: calculateBMR_def Math_round_is_round Let_def)
  have tdee: "tdee_of b l = round (b * getActivityMultiplier l)"
    by (simp add: tdee_of_def Math_round_is_round)
  have dflt: "getActivityMultiplier l
        = (if l \<in> {''sedentary'', ''light'', ''moderate'', ''active'', ''very_active''}
           then getActivityMultiplier l else 1.2)"
    by (simp add: getActivityMultiplier_def)
  have ex1: "calculateBMR 75 175 30 ''male'' = 1699"
    by (simp add: calculateBMR_def Math_round_def Let_def)
  have ex2: "tdee_of 1680 ''light'' = 2310"
    by (simp add: tdee_of_def getActivityMultiplier_def Math_round_def)
  show ?thesis
    using bmr tdee dflt ex1 ex2 by (simp add: getActivityMultiplier_def)
qed

theorem C5_bmr_example_counterexample:
  "calculateBMR 75 175 30 ''male'' \<noteq> 1680"
  by (simp add: calculateBMR_def Math_round_def Let_def)

text \<open>
  C8. The classifier answers Awaiting Entry when no meal is recorded; with a last meal at
  \<open>t\<close> it answers Fed for hours in [0,4), Post-Absorptive for [4,8), Fat Burning for
  [8,12), Deep Ketosis for [12,16) and Autophagy from 16 hours on; exactly 4.0 hours is
  Post-Absorptive, 3.99 hours is Fed, exactly 16.0 hours is Autophagy. (The source reads
  the timestamp 0, the first millisecond of 1970, as no meal: hence \<open>t \<noteq> 0\<close>.)
\<close>

theorem C8_stage_classifier:
  "stage_name (getFastingStage None now) = ''Awaiting Entry''
   \<and> (t \<noteq> 0 \<longrightarrow>
        (let h = hoursSinceLastMeal (Some t) now in
           h = (now - t) / 1000 / 3600
         \<and> (0 \<le> h \<and> h < 4 \<longrightarrow> stage_name (getFastingStage (Some t) now) = ''Fed'')
         \<and> (4 \<le> h \<and> h < 8 \<longrightarrow> stage_name (getFastingStage (Some t) now) = ''Post-Absorptive'')
         \<and> (8 \<le> h \<and> h < 12 \<longrightarrow> stage_name (getFastingStage (Some t) now) = ''Fat Burning'')
         \<and> (12 \<le> h \<and> h < 16 \<longrightarrow> stage_name (getFastingStage (Some t) now) = ''Deep Ketosis'')
         \<and> (16 \<le> h \<longrightarrow> stage_name (getFastingStage (Some t) now) = ''Autophagy'')))
   \<and> (t \<noteq> 0 \<longrightarrow>
          stage_name (getFastingStage (Some t) (t + 4.0 * 3600000)) = ''Post-Absorptive''
        \<and> stage_name (getFastingStage (Some t) (t + 3.99 * 3600000)) = ''Fed''
        \<and> stage_name (getFastingStage (Some t) (t + 16.0 * 3600000)) = ''Autophagy'')"
  by (simp add: getFastingStage_def hoursSinceLastMeal_def secondsSinceLastMeal_def
      truthy_def Let_def)

theorem C8_stage_classifier_witness:
  "(1000::real) \<noteq> 0
   \<and> hoursSinceLastMeal (Some 1000) (1000 + 5 * 3600000) = 5
   \<and> stage_name (getFastingStage (Some 1000) (1000 + 5 * 3600000)) = ''Post-Absorptive''
   \<and> stage_name (getFastingStage (Some 1000) (1000 + 4.0 * 3600000)) = ''Post-Absorptive''
   \<and> stage_name (getFastingStage (Some 1000) (1000 + 3.99 * 3600000)) = ''Fed''
   \<and> stage_name (getFastingStage (Some 1000) (1000 + 16.0 * 3600000)) = ''Autophagy''"
  using C8_stage_classifier [of "1000 + 5 * 3600000" 1000]
  by (simp add: Let_def hoursSinceLastMeal_def secondsSinceLastMeal_def truthy_def)

text \<open>
  C3. With \<open>goal = user.dailyGoalCalories || tdee\<close>, the route sets a buffer of
  \<open>round (goal - consumed)\<close> for tomorrow's date exactly when \<open>consumed < goal\<close> and
  \<open>consumed < tdee\<close>; otherwise it sets none, the reason is \<open>exceeded_tdee\<close> exactly when
  \<open>consumed \<ge> tdee\<close> (else \<open>met_or_exceeded_goal\<close>), and the stored buffer is cleared
  exactly when its date is at most tomorrow's. With goal 1800 and TDEE 2100, consuming
  1500 sets a buffer of 300 for tomorrow and consuming 2200 sets none, with reason
  \<open>exceeded_tdee\<close>.
\<close>

theorem C3_compute_buffer:
  "(let goal = or_else (dailyGoalCalories u) tdee;
        r = calculate_buffer now (Some u) consumed tdee tomorrow in
      (consumed < goal \<and> consumed < tdee \<longrightarrow>
         r = BufferSet (round (goal - consumed)) tomorrow
               (u\<lparr>bufferAmount := Some (round (goal - consumed)),
                  bufferForDate := Some tomorrow, updatedAt := Some now\<rparr>))
    \<and> (\<not> (consumed < goal \<and> consumed < tdee) \<longrightarrow>
         r = BufferNotSet (if consumed \<ge> tdee then exceeded_tdee else met_or_exceeded_goal)
               (has_buffer_due u tomorrow)
               (if has_buffer_due u tomorrow
                then u\<lparr>bufferAmount := None, bufferForDate := None, updatedAt := Some now\<rparr>
                else u)))
   \<and> (dailyGoalCalories u = Some 1800 \<longrightarrow>
        (\<exists>u'. calculate_buffer now (Some u) 1500 2100 tomorrow = BufferSet 300 tomorrow u'
              \<and> bufferAmount u' = Some 300 \<and> bufferForDate u' = Some tomorrow)
      \<and> (\<exists>c u'. calculate_buffer now (Some u) 2200 2100 tomorrow = BufferNotSet exceeded_tdee c u'))"
  by (auto simp: calculate_buffer_def Let_def Math_round_is_round setBuffer_def clearBuffer_def
      has_buffer_due_def or_else_def round_def split: option.splits)

theorem C3_compute_buffer_witness:
  "calculate_buffer 5 (Some user0) 1500 2100 ''2024-03-10''
     = BufferSet 300 ''2024-03-10''
         (user0\<lparr>bufferAmount := Some 300, bufferForDate := Some ''2024-03-10'',
            updatedAt := Some 5\<rparr>)
   \<and> calculate_buffer 5 (Some user0) 2200 2100 ''2024-03-10''
     = BufferNotSet exceeded_tdee True
         (user0\<lparr>bufferAmount := None, bufferForDate := None, updatedAt := Some 5\<rparr>)
   \<and> calculate_buffer 5 (Some user0) 1900 2100 ''2024-03-09''
     = BufferNotSet met_or_exceeded_goal False user0"
  using C3_compute_buffer [of user0 2100 5 1500 "''2024-03-10''"]
        C3_compute_buffer [of user0 2100 5 2200 "''2024-03-10''"]
        C3_compute_buffer [of user0 2100 5 1900 "''2024-03-09''"]
  by (simp add: Let_def or_else_def user0_def has_buffer_due_def round_def)

text \<open>
  C6 (the code at the failing input). A male user of 80 kg with BMR 1700 asks for 70 kg in
  30 days: the deficit is capped at 1000, and the route stores the goal 1200, where the
  client's onboarding, for the same numbers, takes the male floor and shows 1500.
\<close>

theorem C6_server_goal_floor:
  "patch_goals now u (Some 70) (Some 30) (Some 80) (Some 1700)
     = Inr (u\<lparr>goalWeight := Some 70, goalDays := Some 30, goalStartDate := Some now,
              dailyGoalCalories := Some 1200, dailyDeficit := Some 1000, updatedAt := Some now\<rparr>)
   \<and> onboarding_goal 80 1700 ''male'' (Some 70) (Some 30) = Some (1500, 1000)
   \<and> getMinimumDailyCalories ''male'' = 1500"
  by (simp add: patch_goals_def truthy_def Let_def Math_round_def updateUserGoals_def
      onboarding_goal_def getMinimumDailyCalories_def)

theorem C6_server_goal_floor_witness:
  "gender user0 = Some ''male''
   \<and> patch_goals 5 user0 (Some 70) (Some 30) (Some 80) (Some 1700)
     = Inr (user0\<lparr>goalWeight := Some 70, goalDays := Some 30, goalStartDate := Some 5,
              dailyGoalCalories := Some 1200, dailyDeficit := Some 1000, updatedAt := Some 5\<rparr>)"
  using C6_server_goal_floor [of 5 user0] by (simp add: user0_def)

lemma burnSinceAnchor_mono:
  assumes "0 \<le> maxEnergyBalance st" and "now1 \<le> now2"
  shows "burnSinceAnchor st now1 \<le> burnSinceAnchor st now2"
proof -
  have rate: "0 \<le> goalBurnRatePerSecond st"
    using assms(1) by (simp add: goalBurnRatePerSecond_def maxEnergyBalance_def)
  have "secondsSinceAnchor st now1 \<le> secondsSinceAnchor st now2"
    using assms(2) by (simp add: secondsSinceAnchor_def max_def)
  then show ?thesis
    unfolding burnSinceAnchor_def using rate by (rule mult_right_mono)
qed

lemma shownBalance_is_spec_query:
  assumes "0 < maxEnergyBalance st"
  shows "shownBalance st now = spec_query (abs_client st) (now / 1000)"
  using assms
  by (simp add: shownBalance_def spec_query_def abs_client_def cumulativeBalance_def
      burnSinceAnchor_def secondsSinceAnchor_def spec_elapsedBurn_def goalBurnRatePerSecond_def
      maxEnergyBalance_def diff_divide_distrib)

text \<open>
  C1. For every client state whose cap basis (\<open>dailyGoalCalories || tdee\<close>) is positive,
  the balance shown at \<open>now\<close> is
  \<open>min (value + max 0 (now - anchorTimestamp) * (capBasis / 86400)) capBasis\<close> (time in
  seconds; the specification's \<open>query\<close>), it does not decrease as \<open>now\<close> grows while the
  anchor stays as it is, and it never exceeds the cap basis. The balance the server
  stores in an update never exceeds its cap either.
\<close>

theorem C1_query_monotone_capped:
  "0 < maxEnergyBalance st \<longrightarrow>
     shownBalance st now
       = min (balanceAnchorValue st
              + max 0 ((now - balanceAnchorTimestamp st) / 1000) * (maxEnergyBalance st / 86400))
             (maxEnergyBalance st)
   \<and> shownBalance st now = spec_query (abs_client st) (now / 1000)
   \<and> (now1 \<le> now2 \<longrightarrow> shownBalance st now1 \<le> shownBalance st now2)
   \<and> shownBalance st now \<le> maxEnergyBalance st
   \<and> (\<exists>u'. updateEnergyReserve now (Some u) d tdee = Inr u'
          \<and> the (cumulativeNetCalories u') \<le> or_else (dailyGoalCalories u) tdee)"
proof
  assume pos: "0 < maxEnergyBalance st"
  have formula: "shownBalance st now
       = min (balanceAnchorValue st
              + max 0 ((now - balanceAnchorTimestamp st) / 1000) * (maxEnergyBalance st / 86400))
             (maxEnergyBalance st)"
    by (simp add: shownBalance_def cumulativeBalance_def burnSinceAnchor_def
        secondsSinceAnchor_def goalBurnRatePerSecond_def maxEnergyBalance_def)
  have mono: "shownBalance st now1 \<le> shownBalance st now2" if "now1 \<le> now2"
  proof -
    have "cumulativeBalance st now1 \<le> cumulativeBalance st now2"
      using burnSinceAnchor_mono [of st now1 now2] pos that
      by (simp add: cumulativeBalance_def)
    then show ?thesis
      by (simp add: shownBalance_def min_def)
  qed
  have capped: "shownBalance st now \<le> maxEnergyBalance st"
    by (simp add: shownBalance_def)
  have server: "\<exists>u'. updateEnergyReserve now (Some u) d tdee = Inr u'
          \<and> the (cumulativeNetCalories u') \<le> or_else (dailyGoalCalories u) tdee"
    by (simp add: updateEnergyReserve_def Let_def)
  show "shownBalance st now
       = min (balanceAnchorValue st
              + max 0 ((now - balanceAnchorTimestamp st) / 1000) * (maxEnergyBalance st / 86400))
             (maxEnergyBalance st)
   \<and> shownBalance st now = spec_query (abs_client st) (now / 1000)
   \<and> (now1 \<le> now2 \<longrightarrow> shownBalance st now1 \<le> shownBalance st now2)
   \<and> shownBalance st now \<le> maxEnergyBalance st
   \<and> (\<exists>u'. updateEnergyReserve now (Some u) d tdee = Inr u'
          \<and> the (cumulativeNetCalories u') \<le> or_else (dailyGoalCalories u) tdee)"
    using formula mono capped server shownBalance_is_spec_query [OF pos] by simp
qed

theorem C1_query_monotone_capped_witness:
  "0 < maxEnergyBalance (client0\<lparr>balanceAnchorValue := 500\<rparr>)
   \<and> shownBalance (client0\<lparr>balanceAnchorValue := 500\<rparr>) 21600000 = 1000
   \<and> shownBalance (client0\<lparr>balanceAnchorValue := 500\<rparr>) 21600000
        \<le> shownBalance (client0\<lparr>balanceAnchorValue := 500\<rparr>) 43200000
   \<and> shownBalance (client0\<lparr>balanceAnchorValue := 500\<rparr>) 21600000 \<le> 2000"
  using C1_query_monotone_capped [of "client0\<lparr>balanceAnchorValue := 500\<rparr>" 21600000 21600000 43200000 user1 0 2000]
  by (simp add: client0_def maxEnergyBalance_def or_else_def shownBalance_def
      cumulativeBalance_def burnSinceAnchor_def secondsSinceAnchor_def goalBurnRatePerSecond_def)



subsection \<open>Food events: client, server and the specification's engine\<close>






















subsection \<open>Fasting allocation\<close>












subsection \<open>The tracking start day\<close>












subsection \<open>Food entries before the tracking start\<close>

text \<open>
  C10. The user has a tracking start date and the request's timestamp (the clock, when
  the request has none) falls on a day before the day of that date: the answer is a
  validation error (status 400) and the database is unchanged, so no food item is
  inserted.
\<close>

theorem C10_food_before_tracking_start:
  "db_user d = Some u \<and> fastingTrackingStartDate u = Some s
   \<and> timestamp = (if truthy (req_timestamp req) then the (req_timestamp req) else now)
   \<and> startOfDay cal timestamp < startOfDay cal s
   \<longrightarrow> is_validation_error (fst (post_food cal now d req))
       \<and> snd (post_food cal now d req) = d"
  by (simp add: post_food_def Let_def split: option.splits)

theorem C10_food_before_tracking_start_witness:
  "db_user db0 = Some user2 \<and> fastingTrackingStartDate user2 = Some 1710028800000
   \<and> startOfDay utc_calendar 1710000000000 < startOfDay utc_calendar 1710028800000
   \<and> post_food utc_calendar 1710100800000 db0 request0
       = (BeforeTrackingStart 1710028800000, db0)"
  using C10_food_before_tracking_start [of db0 user2 1710028800000 1710000000000 request0
      1710100800000 utc_calendar]
  by (simp add: post_food_def db0_def request0_def user2_def user1_def utc_calendar_def
      safeParse_def truthy_def Let_def)

end
